theory Spec2Isabelle
  imports Complex_Main
begin

section \<open>Python strings\<close>

text \<open>
  A Python \<open>str\<close> is modelled as a \<open>string\<close> (a list of 8-bit characters), so the
  model covers ASCII text; \<open>bytes\<close> are character lists as well.  The functions below
  are the string methods that \<open>models/session.py\<close> calls.
\<close>

type_synonym bytes = "char list"

text \<open>\<open>str.isspace\<close> on the ASCII range: tab, LF, VT, FF, CR, FS, GS, RS, US and space.\<close>

definition is_space :: "char \<Rightarrow> bool" where
  "is_space c = (of_char c \<in> {9, 10, 11, 12, 13, 28, 29, 30, 31, 32 :: nat})"

definition lower_char :: "char \<Rightarrow> char" where
  "lower_char c =
     (if 65 \<le> (of_char c :: nat) \<and> (of_char c :: nat) \<le> 90
      then char_of (of_char c + 32 :: nat) else c)"

text \<open>\<open>s.lower()\<close>\<close>

definition lower :: "string \<Rightarrow> string" where
  "lower s = map lower_char s"

text \<open>\<open>s.split()\<close>: the maximal runs of non-whitespace characters, in order.\<close>

fun split_acc :: "string \<Rightarrow> string \<Rightarrow> string list" where
  "split_acc cur [] = (if cur = [] then [] else [cur])"
| "split_acc cur (c # cs) =
     (if is_space c
      then (if cur = [] then split_acc [] cs else cur # split_acc [] cs)
      else split_acc (cur @ [c]) cs)"

definition split_ws :: "string \<Rightarrow> string list" where
  "split_ws s = split_acc [] s"

text \<open>\<open>s.split(sep)\<close> for a one-character separator: never empty, keeps empty fields.\<close>

fun split_on_acc :: "char \<Rightarrow> string \<Rightarrow> string \<Rightarrow> string list" where
  "split_on_acc sep cur [] = [cur]"
| "split_on_acc sep cur (c # cs) =
     (if c = sep then cur # split_on_acc sep [] cs else split_on_acc sep (cur @ [c]) cs)"

definition split_on :: "char \<Rightarrow> string \<Rightarrow> string list" where
  "split_on sep s = split_on_acc sep [] s"

text \<open>\<open>s.strip()\<close> and \<open>s.strip(chars)\<close>\<close>

definition strip_by :: "(char \<Rightarrow> bool) \<Rightarrow> string \<Rightarrow> string" where
  "strip_by p s = rev (dropWhile p (rev (dropWhile p s)))"

definition strip :: "string \<Rightarrow> string" where
  "strip s = strip_by is_space s"

definition strip_chars :: "string \<Rightarrow> string \<Rightarrow> string" where
  "strip_chars chars s = strip_by (\<lambda>c. c \<in> set chars) s"

text \<open>\<open>s[-n:]\<close> for a positive literal \<open>n\<close>: the whole string when it is shorter.\<close>

definition last_chars :: "nat \<Rightarrow> 'a list \<Rightarrow> 'a list" where
  "last_chars n s = drop (length s - n) s"

text \<open>\<open>sub in s\<close>\<close>

fun contains :: "string \<Rightarrow> string \<Rightarrow> bool" where
  "contains [] sub = (sub = [])"
| "contains (c # cs) sub = (take (length sub) (c # cs) = sub \<or> contains cs sub)"

text \<open>\<open>sep.join(parts)\<close>\<close>

fun join :: "string \<Rightarrow> string list \<Rightarrow> string" where
  "join sep [] = []"
| "join sep [p] = p"
| "join sep (p # q # ps) = p @ sep @ join sep (q # ps)"

text \<open>\<open>str(n)\<close> of an integer, and \<open>int(x)\<close> of a float (truncation towards zero).\<close>

fun digits :: "nat \<Rightarrow> string" where
  "digits n =
     (if n < 10 then [''0123456789'' ! n]
      else digits (n div 10) @ [''0123456789'' ! (n mod 10)])"

declare digits.simps [simp del]

definition str_int :: "int \<Rightarrow> string" where
  "str_int i = (if i < 0 then CHR ''-'' # digits (nat (- i)) else digits (nat i))"

definition py_int :: "real \<Rightarrow> int" where
  "py_int x = (if 0 \<le> x then \<lfloor>x\<rfloor> else \<lceil>x\<rceil>)"

text \<open>\<open>os.path.join(a, b)\<close> (POSIX) for a relative second component.\<close>

definition path_join :: "string \<Rightarrow> string \<Rightarrow> string" where
  "path_join a b =
     (if a = [] then b else if last a = CHR ''/'' then a @ b else a @ ''/'' @ b)"


section \<open>The session record\<close>

text \<open>
  \<open>interview_stage\<close> is a string in the source that only ever holds one of four
  literals; \<open>stage_rank\<close> is the position in the order
  greeting, awaiting\_name, project\_intro, presentation.
\<close>

datatype stage = Greeting | AwaitingName | ProjectIntro | Presentation

fun stage_rank :: "stage \<Rightarrow> nat" where
  "stage_rank Greeting = 0"
| "stage_rank AwaitingName = 1"
| "stage_rank ProjectIntro = 2"
| "stage_rank Presentation = 3"

record qa_pair =
  question :: "string option"
  answer :: string
  timestamp :: real

text \<open>An entry of \<open>processing_queue\<close>: the dict \<open>{'type': ..., 'content': ...}\<close>.\<close>

record event =
  ev_type :: string
  ev_content :: string

text \<open>
  \<open>InterviewSession\<close>.  The attribute \<open>context\<close> is the field \<open>context_buf\<close>
  here.  \<open>websocket\<close> is \<open>None\<close> or a connection handle;
  \<open>recent_ocr_texts\<close> is the \<open>deque(maxlen=5)\<close>, oldest first;
  \<open>current_question\<close> and \<open>silence_start\<close> are \<open>None\<close> or a value; times are the
  numbers \<open>time.time()\<close> returns, taken as reals, so the rounding of floats is
  not part of the model.
\<close>

record session =
  session_id :: string
  websocket :: "nat option"
  context_buf :: string
  transcript :: string
  questions_asked :: "string list"
  qa_pairs :: "qa_pair list"
  last_question_time :: real
  last_speech_time :: real
  evaluation_scores :: "string \<rightharpoonup> real"
  processing_queue :: "event list"
  recent_ocr_texts :: "string list"
  waiting_for_answer :: bool
  current_question :: "string option"
  interview_stage :: stage
  student_name :: string
  project_name :: string
  silence_start :: "real option"
  has_spoken_recently :: bool
  last_response_time :: real

text \<open>\<open>InterviewSession.__init__\<close>\<close>

definition init_session :: "string \<Rightarrow> session" where
  "init_session sid =
     \<lparr> session_id = sid,
       websocket = None,
       context_buf = [],
       transcript = [],
       questions_asked = [],
       qa_pairs = [],
       last_question_time = 0,
       last_speech_time = 0,
       evaluation_scores =
         [''technical_depth'' \<mapsto> 0, ''clarity'' \<mapsto> 0, ''originality'' \<mapsto> 0,
          ''understanding'' \<mapsto> 0, ''overall'' \<mapsto> 0],
       processing_queue = [],
       recent_ocr_texts = [],
       waiting_for_answer = False,
       current_question = None,
       interview_stage = Greeting,
       student_name = [],
       project_name = [],
       silence_start = None,
       has_spoken_recently = False,
       last_response_time = 0 \<rparr>"


section \<open>Collaborators and effects\<close>

text \<open>
  Exceptions are values.  The libraries and services the session calls are parameters
  of the model, each returning its result or the exception it raised:
  \<open>b64decode\<close> is \<open>base64.b64decode\<close>; \<open>image_to_string\<close> is the pipeline
  \<open>Image.open\<close>, \<open>cv2.cvtColor\<close>, \<open>cv2.threshold\<close>, \<open>pytesseract.image_to_string\<close>;
  \<open>transcribe\<close> is \<open>client.audio.transcriptions.create(...).text\<close>;
  \<open>chat_completion\<close> is \<open>client.chat.completions.create(...).choices[0].message.content\<close>;
  \<open>json_loads\<close> is \<open>json.loads\<close> giving a dict of scores; \<open>send_text\<close> tells
  whether \<open>websocket.send_text\<close> returns (or raises); \<open>gettempdir\<close> is
  \<open>tempfile.gettempdir()\<close>.
\<close>

datatype error =
  IndexError | DecodeError | OCRError | TranscriptionError | GenerationError
  | JSONError | SendError

text \<open>
  A prompt is represented by the values interpolated into its fixed wording: for a
  question the candidate's name, the trailing context and transcript and the joined
  earlier questions; for an evaluation the trailing context and transcript and the
  number of questions.
\<close>

datatype prompt =
  QuestionPrompt string string string string
  | EvaluationPrompt string string nat

datatype message =
  QuestionMsg string
  | EvaluationMsg "string \<rightharpoonup> real"

record env =
  b64decode :: "string \<Rightarrow> error + bytes"
  image_to_string :: "bytes \<Rightarrow> error + string"
  transcribe :: "bytes \<Rightarrow> error + string"
  chat_completion :: "prompt \<Rightarrow> error + string"
  json_loads :: "string \<Rightarrow> error + (string \<rightharpoonup> real)"
  send_text :: "message \<Rightarrow> bool"
  gettempdir :: string

text \<open>
  What a call leaves outside the session: the files of the temporary directory, and
  the ordered trace of what was printed, requested from the generation service, sent
  on the websocket and slept.
\<close>

datatype effect =
  Printed string error
  | Requested prompt
  | Sent message
  | Slept real

record world =
  files :: "string \<rightharpoonup> bytes"
  trace :: "effect list"

definition emit :: "effect \<Rightarrow> world \<Rightarrow> world" where
  "emit e w = w\<lparr>trace := trace w @ [e]\<rparr>"

text \<open>\<open>data.split(',')[1]\<close>: the second comma-separated field, or \<open>IndexError\<close>.\<close>

definition payload :: "string \<Rightarrow> error + string" where
  "payload data =
     (case split_on CHR '','' data of
        a # b # rest \<Rightarrow> Inr b
      | _ \<Rightarrow> Inl IndexError)"


section \<open>Frame ingestion\<close>

text \<open>
  \<open>InterviewSession._similarity\<close>.  The quotient is the exact one; for it to
  differ from the float quotient in a comparison with 0.8 the union would need more
  than \<open>10\<^sup>1\<^sup>5\<close> words.
\<close>

definition similarity :: "string \<Rightarrow> string \<Rightarrow> real" where
  "similarity text1 text2 =
     (let words1 = set (split_ws (lower text1));
          words2 = set (split_ws (lower text2))
      in if words1 = {} \<or> words2 = {} then 0
         else let intersection = card (words1 \<inter> words2);
                  union = card (words1 \<union> words2)
              in if union > 0 then real intersection / real union else 0)"

text \<open>The decoding and OCR steps of \<open>add_frame_context\<close>, up to \<open>extracted_text\<close>.\<close>

definition extract_text :: "env \<Rightarrow> string \<Rightarrow> error + string" where
  "extract_text env frame_data =
     (case payload frame_data of
        Inl e \<Rightarrow> Inl e
      | Inr b64 \<Rightarrow>
          (case b64decode env b64 of
             Inl e \<Rightarrow> Inl e
           | Inr image_data \<Rightarrow> image_to_string env image_data))"

definition is_duplicate :: "session \<Rightarrow> string \<Rightarrow> bool" where
  "is_duplicate s extracted_text =
     list_ex (\<lambda>old_text. similarity extracted_text old_text > 0.8) (recent_ocr_texts s)"

text \<open>\<open>deque(maxlen=5).append\<close>: the oldest entry is dropped from a full deque.\<close>

definition deque_append :: "nat \<Rightarrow> 'a list \<Rightarrow> 'a \<Rightarrow> 'a list" where
  "deque_append maxlen d x = last_chars maxlen (d @ [x])"

text \<open>The three statements of \<open>add_frame_context\<close> under \<open>if not is_duplicate\<close>.\<close>

definition append_screen :: "string \<Rightarrow> session \<Rightarrow> session" where
  "append_screen extracted_text s =
     (let s1 = s\<lparr>context_buf := context_buf s @ [CHR 0x0A] @ ''[SCREEN]: '' @ strip extracted_text\<rparr>;
          s2 = s1\<lparr>recent_ocr_texts := deque_append 5 (recent_ocr_texts s1) extracted_text\<rparr>
      in if length (context_buf s2) > 5000
         then s2\<lparr>context_buf := last_chars 3000 (context_buf s2)\<rparr>
         else s2)"

text \<open>\<open>InterviewSession.add_frame_context\<close>\<close>

definition add_frame_context :: "env \<Rightarrow> string \<Rightarrow> session \<Rightarrow> world \<Rightarrow> session \<times> world" where
  "add_frame_context env frame_data s w =
     (case extract_text env frame_data of
        Inl e \<Rightarrow> (s, emit (Printed ''OCR error'' e) w)
      | Inr extracted_text \<Rightarrow>
          if strip extracted_text \<noteq> [] \<and> \<not> is_duplicate s extracted_text
          then (append_screen extracted_text s, w)
          else (s, w))"


section \<open>Audio ingestion\<close>

text \<open>The file \<open>temp_wav\<close> that \<open>add_audio_context\<close> writes the audio to.\<close>

definition temp_wav_path :: "env \<Rightarrow> session \<Rightarrow> real \<Rightarrow> string" where
  "temp_wav_path env s t =
     path_join (gettempdir env)
       (''audio_'' @ session_id s @ ''_'' @ str_int (py_int t) @ ''.wav'')"

definition name_markers :: "string list" where
  "name_markers = [''i'' @ [CHR 0x27] @ ''m'', ''im'', ''name'', ''called'']"

definition project_markers :: "string list" where
  "project_markers = [''project'', ''called'', ''named'']"

text \<open>
  The two \<open>for i, word in enumerate(words)\<close> loops: the first marker word that has a
  successor decides, and the loop breaks there.
\<close>

fun scan_name :: "string list \<Rightarrow> string option" where
  "scan_name (word # next_word # rest) =
     (if lower word \<in> set name_markers
      then Some (strip_chars ''.,!?'' next_word)
      else scan_name (next_word # rest))"
| "scan_name _ = None"

fun scan_project :: "string list \<Rightarrow> string option" where
  "scan_project (word # next_word # rest) =
     (if lower word \<in> set project_markers
      then Some (strip_chars ''.,!?'' (join '' '' (take 3 (next_word # rest))))
      else scan_project (next_word # rest))"
| "scan_project _ = None"

text \<open>Lines 104 to 107: the transcript grows and the speech timers are set.\<close>

definition note_speech :: "real \<Rightarrow> string \<Rightarrow> session \<Rightarrow> session" where
  "note_speech t_speech text s =
     s\<lparr>transcript := transcript s @ '' '' @ strip text,
       last_speech_time := t_speech,
       has_spoken_recently := True,
       silence_start := None\<rparr>"

text \<open>Lines 109 to 118, the branch of stage \<open>awaiting_name\<close>.\<close>

definition extract_name :: "string \<Rightarrow> session \<Rightarrow> session" where
  "extract_name text s =
     (let words = split_ws text;
          s1 = (case scan_name words of Some n \<Rightarrow> s\<lparr>student_name := n\<rparr> | None \<Rightarrow> s)
      in (case words of
            first_word # rest \<Rightarrow>
              if student_name s1 = [] then s1\<lparr>student_name := strip_chars ''.,!?'' first_word\<rparr>
              else s1
          | [] \<Rightarrow> s1))"

text \<open>Lines 120 to 128, the branch of stage \<open>project_intro\<close>.\<close>

definition extract_project :: "string \<Rightarrow> session \<Rightarrow> session" where
  "extract_project text s =
     (let lower_text = lower text
      in if contains lower_text ''project'' \<or> contains lower_text ''built''
            \<or> contains lower_text ''created''
         then (case scan_project (split_ws text) of
                 Some p \<Rightarrow> s\<lparr>project_name := p\<rparr>
               | None \<Rightarrow> s)
         else s)"

definition extract_facts :: "string \<Rightarrow> session \<Rightarrow> session" where
  "extract_facts text s =
     (if interview_stage s = AwaitingName then extract_name text s
      else if interview_stage s = ProjectIntro then extract_project text s
      else s)"

text \<open>Lines 130 to 136: an outstanding question is answered.\<close>

definition record_answer :: "real \<Rightarrow> string \<Rightarrow> session \<Rightarrow> session" where
  "record_answer t_answer text s =
     (if waiting_for_answer s
      then s\<lparr>qa_pairs := qa_pairs s @
                 [\<lparr>question = current_question s, answer = strip text, timestamp = t_answer\<rparr>],
             waiting_for_answer := False\<rparr>
      else s)"

text \<open>Lines 138 and 139.\<close>

definition cap_transcript :: "session \<Rightarrow> session" where
  "cap_transcript s =
     (if length (transcript s) > 3000
      then s\<lparr>transcript := last_chars 2000 (transcript s)\<rparr>
      else s)"

text \<open>The body of \<open>if transcript.text.strip():\<close>, lines 104 to 139.\<close>

definition ingest_transcription :: "real \<Rightarrow> real \<Rightarrow> string \<Rightarrow> session \<Rightarrow> session" where
  "ingest_transcription t_speech t_answer text s =
     cap_transcript (record_answer t_answer text (extract_facts text (note_speech t_speech text s)))"

text \<open>
  \<open>InterviewSession.add_audio_context\<close>.  \<open>t_file\<close>, \<open>t_speech\<close> and \<open>t_answer\<close> are
  the values of the three calls of \<open>time.time()\<close>, at lines 90, 105 and 134.  An
  exception leaves the \<open>try\<close> block at the statement that raised it, with the world as
  it was there.  Writing, reading and removing the temporary file are taken to succeed;
  decoding and transcription may raise.
\<close>

definition add_audio_context ::
  "env \<Rightarrow> real \<Rightarrow> real \<Rightarrow> real \<Rightarrow> string \<Rightarrow> session \<Rightarrow> world \<Rightarrow> session \<times> world" where
  "add_audio_context env t_file t_speech t_answer audio_data s w =
     (case payload audio_data of
        Inl e \<Rightarrow> (s, emit (Printed ''STT error'' e) w)
      | Inr b64 \<Rightarrow>
          (case b64decode env b64 of
             Inl e \<Rightarrow> (s, emit (Printed ''STT error'' e) w)
           | Inr audio_bytes \<Rightarrow>
               if length audio_bytes < 1000 then (s, w)
               else
                 let temp_wav = temp_wav_path env s t_file;
                     w1 = w\<lparr>files := (files w)(temp_wav \<mapsto> audio_bytes)\<rparr>
                 in (case transcribe env audio_bytes of
                       Inl e \<Rightarrow> (s, emit (Printed ''STT error'' e) w1)
                     | Inr text \<Rightarrow>
                         (let w2 = w1\<lparr>files := (files w1)(temp_wav := None)\<rparr>
                          in if strip text \<noteq> []
                             then (ingest_transcription t_speech t_answer text s, w2)
                             else (s, w2)))))"


section \<open>Question policy and dialogue\<close>

text \<open>
  \<open>InterviewSession.should_ask_question\<close>; \<open>current_time\<close> is its \<open>time.time()\<close>.
  It returns its answer and the session, whose \<open>silence_start\<close> it may set.
\<close>

definition should_ask_question :: "real \<Rightarrow> session \<Rightarrow> bool \<times> session" where
  "should_ask_question current_time s =
     (if interview_stage s \<in> {Greeting, AwaitingName, ProjectIntro} then (False, s)
      else if waiting_for_answer s then (False, s)
      else if current_time - last_question_time s < 5 then (False, s)
      else if length (questions_asked s) \<ge> 5 then (False, s)
      else
        let s1 = (if has_spoken_recently s \<and> silence_start s = None
                  then s\<lparr>silence_start := Some current_time\<rparr> else s)
        in if has_spoken_recently s \<and> current_time - last_speech_time s < 5 then (False, s1)
           else (length (context_buf s1 @ transcript s1) > 200, s1))"

definition greeting_text :: string where
  "greeting_text = ''Hello! Welcome to your project presentation interview. I'm your AI interviewer today. Before we begin, could you please tell me your name?''"

definition nice_to_meet_text :: "string \<Rightarrow> string" where
  "nice_to_meet_text name = ''Nice to meet you, '' @ name @ ''! I'm excited to learn about your project. Could you start by telling me what you've built and what problem it solves?''"

definition name_again_text :: string where
  "name_again_text = ''I didn't quite catch your name. Could you please tell me your name again?''"

definition thank_you_text :: "string \<Rightarrow> string" where
  "thank_you_text name_part = ''Thank you '' @ name_part @ ''for that introduction! Please go ahead and share your screen to walk me through your project. I'll be listening carefully and will ask questions when you pause.''"

definition more_detail_text :: string where
  "more_detail_text = ''Could you tell me a bit more about your project? What does it do?''"

text \<open>
  \<open>InterviewSession.generate_conversational_response\<close>; \<open>current_time\<close> is its
  \<open>time.time()\<close>.  Nothing in its \<open>try\<close> block raises.
\<close>

definition generate_conversational_response :: "real \<Rightarrow> session \<Rightarrow> string option \<times> session" where
  "generate_conversational_response current_time s =
     (if current_time - last_response_time s < 15 then (None, s)
      else if interview_stage s = Greeting then
        (Some greeting_text,
         s\<lparr>interview_stage := AwaitingName, last_response_time := current_time\<rparr>)
      else if interview_stage s = AwaitingName then
        (if student_name s \<noteq> [] then
           (Some (nice_to_meet_text (student_name s)),
            s\<lparr>interview_stage := ProjectIntro, last_response_time := current_time\<rparr>)
         else if current_time - last_response_time s > 5 then
           (Some name_again_text, s\<lparr>last_response_time := current_time\<rparr>)
         else (None, s))
      else if interview_stage s = ProjectIntro then
        (if length (transcript s) > 50 then
           (Some (thank_you_text (if student_name s \<noteq> [] then student_name s @ '', '' else [])),
            s\<lparr>interview_stage := Presentation, last_response_time := current_time\<rparr>)
         else if current_time - last_response_time s > 5 then
           (Some more_detail_text, s\<lparr>last_response_time := current_time\<rparr>)
         else (None, s))
      else (None, s))"

text \<open>
  \<open>InterviewSession.generate_question\<close>; \<open>t_check\<close> is the \<open>time.time()\<close> of
  \<open>should_ask_question\<close> and \<open>t_stamp\<close> the one at line 247.
\<close>

definition generate_question ::
  "env \<Rightarrow> real \<Rightarrow> real \<Rightarrow> session \<Rightarrow> world \<Rightarrow> string option \<times> session \<times> world" where
  "generate_question env t_check t_stamp s w =
     (case should_ask_question t_check s of
        (False, s1) \<Rightarrow> (None, s1, w)
      | (True, s1) \<Rightarrow>
          let p = QuestionPrompt
                    (if student_name s1 \<noteq> [] then student_name s1 else ''the student'')
                    (last_chars 1000 (context_buf s1))
                    (last_chars 1000 (transcript s1))
                    (join '', '' (questions_asked s1));
              w1 = emit (Requested p) w
          in (case chat_completion env p of
                Inl e \<Rightarrow> (None, s1, emit (Printed ''Question generation error'' e) w1)
              | Inr content \<Rightarrow>
                  (let question = strip content
                   in if question \<noteq> []
                      then (Some question,
                            s1\<lparr>questions_asked := questions_asked s1 @ [question],
                               current_question := Some question,
                               waiting_for_answer := True,
                               last_question_time := t_stamp\<rparr>,
                            w1)
                      else (None, s1, w1))))"

text \<open>\<open>InterviewSession.update_evaluation\<close>\<close>

definition update_evaluation :: "env \<Rightarrow> session \<Rightarrow> world \<Rightarrow> session \<times> world" where
  "update_evaluation env s w =
     (let p = EvaluationPrompt (last_chars 1500 (context_buf s)) (last_chars 1500 (transcript s))
                (length (questions_asked s));
          w1 = emit (Requested p) w
      in (case chat_completion env p of
            Inl e \<Rightarrow> (s, emit (Printed ''Evaluation error'' e) w1)
          | Inr content \<Rightarrow>
              (case json_loads env (strip content) of
                 Inl e \<Rightarrow> (s, emit (Printed ''Evaluation error'' e) w1)
               | Inr scores \<Rightarrow>
                   (let s1 = s\<lparr>evaluation_scores := evaluation_scores s ++ scores\<rparr>;
                        m = EvaluationMsg (evaluation_scores s1)
                    in if websocket s1 \<noteq> None
                       then (if send_text env m then (s1, emit (Sent m) w1)
                             else (s1, emit (Printed ''Evaluation error'' SendError) w1))
                       else (s1, w1)))))"


section \<open>The session worker\<close>

text \<open>\<open>x % m\<close> on floats with a positive \<open>m\<close>.\<close>

definition py_fmod :: "real \<Rightarrow> real \<Rightarrow> real" where
  "py_fmod x m = x - m * of_int \<lfloor>x / m\<rfloor>"

text \<open>
  The values \<open>time.time()\<close> returns during one iteration of the loop of
  \<open>process_session_data\<close>, by the place of the call: in the greeting's
  \<open>generate_conversational_response\<close>, in \<open>add_audio_context\<close> (three), in the
  \<open>generate_conversational_response\<close> after an audio event, in \<open>generate_question\<close>
  (two), at line 49 and at line 53.
\<close>

record readings =
  r_greet :: real
  r_file :: real
  r_speech :: real
  r_answer :: real
  r_advance :: real
  r_check :: real
  r_stamp :: real
  r_eval :: real
  r_decay :: real

text \<open>
  The worker's state is its local \<open>greeting_sent\<close>, the session and the world.  A
  statement of the loop body either completes or raises, leaving the state it reached.
\<close>

type_synonym wstate = "bool \<times> session \<times> world"

datatype outcome = Completed wstate | Raised error wstate

text \<open>
  \<open>if msg and session.websocket: await session.websocket.send_text(...)\<close>, the
  delivery after an audio event (lines 33 to 38 and 42 to 47).
\<close>

definition deliver :: "env \<Rightarrow> bool \<Rightarrow> string option \<Rightarrow> session \<Rightarrow> world \<Rightarrow> outcome" where
  "deliver env g msg s w =
     (case msg of
        None \<Rightarrow> Completed (g, s, w)
      | Some m \<Rightarrow>
          if m \<noteq> [] \<and> websocket s \<noteq> None
          then (if send_text env (QuestionMsg m)
                then Completed (g, s, emit (Sent (QuestionMsg m)) w)
                else Raised SendError (g, s, w))
          else Completed (g, s, w))"

text \<open>Lines 11 to 20: the greeting.\<close>

definition greet :: "env \<Rightarrow> readings \<Rightarrow> wstate \<Rightarrow> outcome" where
  "greet env r st =
     (case st of (g, s, w) \<Rightarrow>
        if \<not> g \<and> websocket s \<noteq> None
        then (let w1 = emit (Slept 2) w;
                  (greeting, s1) = generate_conversational_response (r_greet r) s
              in (case greeting of
                    None \<Rightarrow> Completed (g, s1, w1)
                  | Some m \<Rightarrow>
                      if m \<noteq> []
                      then (if send_text env (QuestionMsg m)
                            then Completed (True, s1, emit (Sent (QuestionMsg m)) w1)
                            else Raised SendError (g, s1, w1))
                      else Completed (g, s1, w1)))
        else Completed st)"

text \<open>Lines 25 to 47: the dequeued event is handled.\<close>

definition handle_event :: "env \<Rightarrow> readings \<Rightarrow> event \<Rightarrow> wstate \<Rightarrow> outcome" where
  "handle_event env r data st =
     (case st of (g, s, w) \<Rightarrow>
        if ev_type data = ''frame''
        then (case add_frame_context env (ev_content data) s w of
                (s1, w1) \<Rightarrow> Completed (g, s1, w1))
        else if ev_type data = ''audio''
        then (case add_audio_context env (r_file r) (r_speech r) (r_answer r)
                     (ev_content data) s w of
                (s1, w1) \<Rightarrow>
                  if interview_stage s1 \<in> {AwaitingName, ProjectIntro}
                  then (let w2 = emit (Slept 1) w1;
                            (response, s2) = generate_conversational_response (r_advance r) s1
                        in deliver env g response s2 w2)
                  else if interview_stage s1 = Presentation
                  then (case generate_question env (r_check r) (r_stamp r) s1 w1 of
                          (q, s2, w2) \<Rightarrow> deliver env g q s2 w2)
                  else Completed (g, s1, w1))
        else Completed st)"

text \<open>Lines 49 and 50: the evaluation trigger.\<close>

definition evaluation_due :: "readings \<Rightarrow> session \<Rightarrow> bool" where
  "evaluation_due r s = (length (questions_asked s) > 0 \<and> py_fmod (r_eval r) 60 < 1)"

definition evaluation_trigger :: "env \<Rightarrow> readings \<Rightarrow> wstate \<Rightarrow> wstate" where
  "evaluation_trigger env r st =
     (case st of (g, s, w) \<Rightarrow>
        if evaluation_due r s
        then (case update_evaluation env s w of (s1, w1) \<Rightarrow> (g, s1, w1))
        else st)"

text \<open>Lines 22 to 50: the block under \<open>if not session.processing_queue.empty()\<close>.\<close>

definition process_queue :: "env \<Rightarrow> readings \<Rightarrow> wstate \<Rightarrow> outcome" where
  "process_queue env r st =
     (case st of (g, s, w) \<Rightarrow>
        (case processing_queue s of
           [] \<Rightarrow> Completed st
         | data # rest \<Rightarrow>
             (case handle_event env r data (g, s\<lparr>processing_queue := rest\<rparr>, w) of
                Raised e st1 \<Rightarrow> Raised e st1
              | Completed st1 \<Rightarrow> Completed (evaluation_trigger env r st1))))"

text \<open>Lines 52 to 57: the speech flag decays, and the loop sleeps.\<close>

definition decay_speech :: "real \<Rightarrow> session \<Rightarrow> session" where
  "decay_speech t s =
     (if has_spoken_recently s
      then (if t - last_speech_time s > 3 then s\<lparr>has_spoken_recently := False\<rparr> else s)
      else s)"

definition finish_tick :: "readings \<Rightarrow> wstate \<Rightarrow> wstate" where
  "finish_tick r st =
     (case st of (g, s, w) \<Rightarrow> (g, decay_speech (r_decay r) s, emit (Slept 0.1) w))"

text \<open>Lines 59 to 61: the handler of the loop body.\<close>

definition tick_failed :: "error \<Rightarrow> wstate \<Rightarrow> wstate" where
  "tick_failed e st =
     (case st of (g, s, w) \<Rightarrow>
        (g, s, emit (Slept 1) (emit (Printed ''Session processing error'' e) w)))"

text \<open>One iteration of \<open>while True\<close> in \<open>process_session_data\<close>.\<close>

definition tick :: "env \<Rightarrow> readings \<Rightarrow> wstate \<Rightarrow> wstate" where
  "tick env r st =
     (case greet env r st of
        Raised e st1 \<Rightarrow> tick_failed e st1
      | Completed st1 \<Rightarrow>
          (case process_queue env r st1 of
             Raised e st2 \<Rightarrow> tick_failed e st2
           | Completed st2 \<Rightarrow> finish_tick r st2))"

text \<open>
  The loop never ends by itself; \<open>ticks\<close> runs it for as many iterations as it is
  given collaborators and clock readings for.
\<close>

fun ticks :: "(env \<times> readings) list \<Rightarrow> wstate \<Rightarrow> wstate" where
  "ticks [] st = st"
| "ticks ((env, r) # rest) st = ticks rest (tick env r st)"


section \<open>Operations on a session\<close>

text \<open>
  Every statement of the repository that changes a session is one of these: the five
  methods of \<open>InterviewSession\<close>; the assignment \<open>session.websocket = websocket\<close> and
  the \<open>processing_queue.put\<close> of \<open>websocket_endpoint\<close>; the
  \<open>processing_queue.get\<close> and the decay of \<open>has_spoken_recently\<close> in
  \<open>process_session_data\<close>.  Each carries the collaborators and the clock readings of
  its call.  The worker calls \<open>get\<close> on a non-empty queue only; on an empty one
  \<open>Get\<close> changes nothing.
\<close>

datatype op =
  Frame env string
  | Audio env real real real string
  | Advance real
  | Ask env real real
  | Evaluate env
  | Attach nat
  | Put event
  | Get
  | Decay real

fun apply_op :: "op \<Rightarrow> session \<times> world \<Rightarrow> session \<times> world" where
  "apply_op (Frame env frame_data) (s, w) = add_frame_context env frame_data s w"
| "apply_op (Audio env t_file t_speech t_answer audio_data) (s, w) =
     add_audio_context env t_file t_speech t_answer audio_data s w"
| "apply_op (Advance t) (s, w) = (snd (generate_conversational_response t s), w)"
| "apply_op (Ask env t_check t_stamp) (s, w) = snd (generate_question env t_check t_stamp s w)"
| "apply_op (Evaluate env) (s, w) = update_evaluation env s w"
| "apply_op (Attach h) (s, w) = (s\<lparr>websocket := Some h\<rparr>, w)"
| "apply_op (Put data) (s, w) = (s\<lparr>processing_queue := processing_queue s @ [data]\<rparr>, w)"
| "apply_op Get (s, w) = (s\<lparr>processing_queue := tl (processing_queue s)\<rparr>, w)"
| "apply_op (Decay t) (s, w) = (decay_speech t s, w)"

fun run :: "op list \<Rightarrow> session \<times> world \<Rightarrow> session \<times> world" where
  "run [] st = st"
| "run (x # xs) st = run xs (apply_op x st)"

definition init_world :: world where
  "init_world = \<lparr> files = Map.empty, trace = [] \<rparr>"

text \<open>
  Stand-ins for the collaborators, for concrete runs.  \<open>echo_env\<close> decodes and
  recognises every payload as itself and answers every prompt with a fixed question;
  \<open>speech_env text\<close> decodes every payload to 1000 bytes of audio, transcribed as
  \<open>text\<close>; \<open>failing_stt_env\<close> decodes alike, and its transcription service raises.
\<close>

definition echo_env :: env where
  "echo_env =
     \<lparr> b64decode = Inr, image_to_string = Inr, transcribe = Inr,
       chat_completion = (\<lambda>p. Inr ''Why?''), json_loads = (\<lambda>t. Inl JSONError),
       send_text = (\<lambda>m. True), gettempdir = ''/tmp'' \<rparr>"

definition speech_env :: "string \<Rightarrow> env" where
  "speech_env text =
     echo_env\<lparr>b64decode := (\<lambda>b. Inr (replicate 1000 (CHR ''a''))),
              transcribe := (\<lambda>b. Inr text)\<rparr>"

definition failing_stt_env :: env where
  "failing_stt_env =
     echo_env\<lparr>b64decode := (\<lambda>b. Inr (replicate 1000 (CHR ''a''))),
              transcribe := (\<lambda>b. Inl TranscriptionError)\<rparr>"

text \<open>
  A session in the presentation stage that has asked five questions, with enough
  screen content and no pending answer.
\<close>

definition five_asked :: session where
  "five_asked =
     (init_session ''u'')
       \<lparr>context_buf := replicate 300 (CHR ''x''),
        questions_asked := [''a'', ''b'', ''c'', ''d'', ''e''],
        interview_stage := Presentation\<rparr>"

text \<open>The same session with four questions asked, and with its fifth unanswered.\<close>

definition four_asked :: session where
  "four_asked = five_asked\<lparr>questions_asked := [''a'', ''b'', ''c'', ''d'']\<rparr>"

definition pending :: session where
  "pending =
     five_asked\<lparr>transcript := ''before'', waiting_for_answer := True,
                current_question := Some ''e''\<rparr>"


section \<open>Invariants and observations\<close>

text \<open>A session that waits for an answer has a question, and it is not empty.\<close>

definition answerable :: "session \<Rightarrow> bool" where
  "answerable s =
     (waiting_for_answer s \<longrightarrow>
        (case current_question s of None \<Rightarrow> False | Some q \<Rightarrow> q \<noteq> []))"

text \<open>
  The clock readings of the calls of \<open>generate_conversational_response\<close> in a run
  that returned a message, in order.
\<close>

fun advance_times :: "op list \<Rightarrow> session \<times> world \<Rightarrow> real list" where
  "advance_times [] st = []"
| "advance_times (Advance t # xs) st =
     (if fst (generate_conversational_response t (fst st)) \<noteq> None
      then t # advance_times xs (apply_op (Advance t) st)
      else advance_times xs (apply_op (Advance t) st))"
| "advance_times (x # xs) st = advance_times xs (apply_op x st)"

text \<open>
  A session that was greeted at clock reading 100, and one whose screen buffer is
  close to its cap.
\<close>

definition greeted :: session where
  "greeted = (init_session ''u'')\<lparr>interview_stage := AwaitingName, last_response_time := 100\<rparr>"

definition nearly_full :: session where
  "nearly_full = (init_session ''u'')\<lparr>context_buf := replicate 4995 (CHR ''x'')\<rparr>"





text \<open>
  The evaluations a world has seen are the evaluation prompts in its trace.
\<close>

definition is_evaluation_request :: "effect \<Rightarrow> bool" where
  "is_evaluation_request e =
     (case e of Requested (EvaluationPrompt c t n) \<Rightarrow> True | _ \<Rightarrow> False)"

definition evaluation_requests :: "world \<Rightarrow> nat" where
  "evaluation_requests w = length (filter is_evaluation_request (trace w))"

definition evaluations :: "wstate \<Rightarrow> nat" where
  "evaluations st = evaluation_requests (snd (snd st))"

text \<open>The state an outcome leaves, completed or raised.\<close>

definition outcome_state :: "outcome \<Rightarrow> wstate" where
  "outcome_state out = (case out of Completed st \<Rightarrow> st | Raised e st \<Rightarrow> st)"

text \<open>
  Clock readings on a full minute, a frame event, and the session \<open>five_asked\<close> with
  that event in its queue.
\<close>

definition on_the_minute :: readings where
  "on_the_minute =
     \<lparr> r_greet = 120, r_file = 120, r_speech = 120, r_answer = 120, r_advance = 120,
       r_check = 120, r_stamp = 120, r_eval = 120, r_decay = 120 \<rparr>"

definition hello_frame :: event where
  "hello_frame = \<lparr> ev_type = ''frame'', ev_content = ''x,hello'' \<rparr>"

definition queued :: session where
  "queued = five_asked\<lparr>processing_queue := [hello_frame]\<rparr>"


section \<open>Properties\<close>

subsection \<open>What each operation leaves alone\<close>

lemma ingest_fields:
  "interview_stage (ingest_transcription t1 t2 text s) = interview_stage s"
  "context_buf (ingest_transcription t1 t2 text s) = context_buf s"
  "last_response_time (ingest_transcription t1 t2 text s) = last_response_time s"
  "recent_ocr_texts (ingest_transcription t1 t2 text s) = recent_ocr_texts s"
  "current_question (ingest_transcription t1 t2 text s) = current_question s"
  by (simp_all add: ingest_transcription_def cap_transcript_def record_answer_def
      extract_facts_def extract_name_def extract_project_def note_speech_def Let_def
      split: option.splits list.splits)

lemma ingest_waiting:
  "\<not> waiting_for_answer (ingest_transcription t1 t2 text s)"
  by (simp add: ingest_transcription_def cap_transcript_def record_answer_def
      extract_facts_def extract_name_def extract_project_def note_speech_def Let_def
      split: option.splits list.splits)

lemma ingest_qa:
  "waiting_for_answer s \<Longrightarrow> qa_pairs (ingest_transcription t1 t2 text s) =
     qa_pairs s @ [\<lparr>question = current_question s, answer = strip text, timestamp = t2\<rparr>]"
  by (simp add: ingest_transcription_def cap_transcript_def record_answer_def
      extract_facts_def extract_name_def extract_project_def note_speech_def Let_def
      split: option.splits list.splits)

lemma audio_result:
  assumes "payload audio_data = Inr b64" "b64decode env b64 = Inr audio_bytes"
    "1000 \<le> length audio_bytes" "transcribe env audio_bytes = Inr text" "strip text \<noteq> []"
  shows "fst (add_audio_context env t0 t1 t2 audio_data s w) = ingest_transcription t1 t2 text s"
  using assms by (simp add: add_audio_context_def Let_def)

lemma audio_cases:
  "fst (add_audio_context env t0 t1 t2 audio_data s w) = s \<or>
   (\<exists>text. fst (add_audio_context env t0 t1 t2 audio_data s w) = ingest_transcription t1 t2 text s)"
  by (auto simp add: add_audio_context_def Let_def split: sum.splits)

lemma frame_cases:
  "add_frame_context env fd s w = (s, w) \<or>
   (\<exists>e. add_frame_context env fd s w = (s, emit (Printed ''OCR error'' e) w)) \<or>
   (\<exists>text. add_frame_context env fd s w = (append_screen text s, w))"
  by (auto simp add: add_frame_context_def split: sum.splits)

lemma append_screen_fields:
  "interview_stage (append_screen text s) = interview_stage s"
  "last_response_time (append_screen text s) = last_response_time s"
  "current_question (append_screen text s) = current_question s"
  "waiting_for_answer (append_screen text s) = waiting_for_answer s"
  by (simp_all add: append_screen_def Let_def)

lemma respond_fields:
  "context_buf (snd (generate_conversational_response t s)) = context_buf s"
  "recent_ocr_texts (snd (generate_conversational_response t s)) = recent_ocr_texts s"
  "current_question (snd (generate_conversational_response t s)) = current_question s"
  "waiting_for_answer (snd (generate_conversational_response t s)) = waiting_for_answer s"
  by (simp_all add: generate_conversational_response_def)

lemma respond_stage:
  "stage_rank (interview_stage s)
     \<le> stage_rank (interview_stage (snd (generate_conversational_response t s)))"
  by (simp add: generate_conversational_response_def)

lemma respond_limited:
  "t - last_response_time s < 15 \<Longrightarrow> generate_conversational_response t s = (None, s)"
  by (simp add: generate_conversational_response_def)

lemma respond_silent:
  "fst (generate_conversational_response t s) = None \<Longrightarrow>
     snd (generate_conversational_response t s) = s"
  by (cases "t - last_response_time s < 15"; cases "interview_stage s";
      cases "student_name s = []"; cases "length (transcript s) > 50")
     (simp_all add: generate_conversational_response_def)

lemma respond_stamped:
  "fst (generate_conversational_response t s) \<noteq> None \<Longrightarrow>
     last_response_time (snd (generate_conversational_response t s)) = t
     \<and> 15 \<le> t - last_response_time s"
  by (simp add: generate_conversational_response_def split: if_splits)

lemma should_ask_fields:
  "interview_stage (snd (should_ask_question t s)) = interview_stage s"
  "context_buf (snd (should_ask_question t s)) = context_buf s"
  "recent_ocr_texts (snd (should_ask_question t s)) = recent_ocr_texts s"
  "last_response_time (snd (should_ask_question t s)) = last_response_time s"
  "current_question (snd (should_ask_question t s)) = current_question s"
  "waiting_for_answer (snd (should_ask_question t s)) = waiting_for_answer s"
  by (simp_all add: should_ask_question_def Let_def)

lemma ask_fields:
  "interview_stage (fst (snd (generate_question env t1 t2 s w))) = interview_stage s"
  "context_buf (fst (snd (generate_question env t1 t2 s w))) = context_buf s"
  "recent_ocr_texts (fst (snd (generate_question env t1 t2 s w))) = recent_ocr_texts s"
  "last_response_time (fst (snd (generate_question env t1 t2 s w))) = last_response_time s"
  using should_ask_fields [of t1 s]
  by (auto simp add: generate_question_def Let_def split: prod.splits bool.splits sum.splits)

lemma ask_answerable:
  "answerable s \<Longrightarrow> answerable (fst (snd (generate_question env t1 t2 s w)))"
  using should_ask_fields [of t1 s]
  by (auto simp add: generate_question_def answerable_def Let_def
      split: prod.splits bool.splits sum.splits)

lemma evaluate_fields:
  "interview_stage (fst (update_evaluation env s w)) = interview_stage s"
  "context_buf (fst (update_evaluation env s w)) = context_buf s"
  "recent_ocr_texts (fst (update_evaluation env s w)) = recent_ocr_texts s"
  "last_response_time (fst (update_evaluation env s w)) = last_response_time s"
  "current_question (fst (update_evaluation env s w)) = current_question s"
  "waiting_for_answer (fst (update_evaluation env s w)) = waiting_for_answer s"
  by (simp_all add: update_evaluation_def Let_def split: sum.splits)

lemma decay_fields:
  "interview_stage (decay_speech t s) = interview_stage s"
  "context_buf (decay_speech t s) = context_buf s"
  "recent_ocr_texts (decay_speech t s) = recent_ocr_texts s"
  "last_response_time (decay_speech t s) = last_response_time s"
  "current_question (decay_speech t s) = current_question s"
  "waiting_for_answer (decay_speech t s) = waiting_for_answer s"
  by (simp_all add: decay_speech_def)

lemma audio_fields:
  "interview_stage (fst (add_audio_context env t0 t1 t2 d s w)) = interview_stage s"
  "context_buf (fst (add_audio_context env t0 t1 t2 d s w)) = context_buf s"
  "recent_ocr_texts (fst (add_audio_context env t0 t1 t2 d s w)) = recent_ocr_texts s"
  "last_response_time (fst (add_audio_context env t0 t1 t2 d s w)) = last_response_time s"
  "current_question (fst (add_audio_context env t0 t1 t2 d s w)) = current_question s"
  using audio_cases [of env t0 t1 t2 d s w] by (auto simp add: ingest_fields)

lemma frame_fields:
  "interview_stage (fst (add_frame_context env d s w)) = interview_stage s"
  "last_response_time (fst (add_frame_context env d s w)) = last_response_time s"
  "current_question (fst (add_frame_context env d s w)) = current_question s"
  "waiting_for_answer (fst (add_frame_context env d s w)) = waiting_for_answer s"
  using frame_cases [of env d s w] by (auto simp add: append_screen_fields)

lemma apply_op_stage:
  "stage_rank (interview_stage (fst st)) \<le> stage_rank (interview_stage (fst (apply_op x st)))"
  by (cases x; cases st)
     (simp_all add: frame_fields audio_fields respond_stage ask_fields evaluate_fields decay_fields)

lemma run_stage:
  "stage_rank (interview_stage (fst st)) \<le> stage_rank (interview_stage (fst (run xs st)))"
proof (induction xs arbitrary: st)
  case Nil
  show ?case by simp
next
  case (Cons x xs)
  have "stage_rank (interview_stage (fst st))
          \<le> stage_rank (interview_stage (fst (apply_op x st)))"
    by (rule apply_op_stage)
  also have "\<dots> \<le> stage_rank (interview_stage (fst (run xs (apply_op x st))))"
    by (rule Cons.IH)
  finally show ?case by simp
qed

lemma run_append: "run (xs @ ys) st = run ys (run xs st)"
  by (induction xs arbitrary: st) simp_all

lemma strip_yes: "strip '' yes '' = ''yes''"
  by (simp add: strip_def strip_by_def is_space_def)

lemma payload_xy: "payload ''x,y'' = Inr ''y''"
  by (simp add: payload_def split_on_def)


subsection \<open>The question cap\<close>

text \<open>
  C8.  When \<open>questions_asked\<close> has five entries (or more), \<open>should_ask_question\<close>
  answers \<open>False\<close>, whatever the stage, the timers, \<open>waiting_for_answer\<close> and the
  lengths of the buffers are.
\<close>

theorem should_ask_question_capped:
  "5 \<le> length (questions_asked s) \<Longrightarrow> \<not> fst (should_ask_question current_time s)"
  by (simp add: should_ask_question_def)

text \<open>
  At \<open>five_asked\<close> the cap is the only reason: with the fifth question taken away the
  same call answers \<open>True\<close>.
\<close>

theorem should_ask_question_capped_witness:
  "5 \<le> length (questions_asked five_asked)
   \<and> \<not> fst (should_ask_question 100 five_asked)
   \<and> fst (should_ask_question 100 (five_asked\<lparr>questions_asked := [''a'', ''b'', ''c'', ''d'']\<rparr>))"
  using should_ask_question_capped [of five_asked 100]
  by (simp add: five_asked_def init_session_def should_ask_question_def)


subsection \<open>The stage\<close>

text \<open>
  C6.  Along every sequence of operations the stage only moves forward in the order
  greeting, awaiting\_name, project\_intro, presentation: its rank after a run is at
  most its rank after any longer run, from every state.
\<close>

theorem stage_never_regresses:
  "stage_rank (interview_stage (fst (run xs st)))
     \<le> stage_rank (interview_stage (fst (run (xs @ ys) st)))"
  by (simp add: run_append run_stage)


subsection \<open>The outstanding question\<close>

lemma apply_op_answerable:
  "answerable (fst st) \<Longrightarrow> answerable (fst (apply_op x st))"
proof (cases st)
  case (Pair s w)
  assume a: "answerable (fst st)"
  show ?thesis
  proof (cases x)
    case (Audio env t0 t1 t2 d)
    then show ?thesis using a Pair audio_cases [of env t0 t1 t2 d s w]
      by (auto simp add: ingest_waiting answerable_def)
  next
    case (Ask env t1 t2)
    then show ?thesis using a Pair by (simp add: ask_answerable)
  qed (use a Pair in \<open>simp_all add: answerable_def frame_fields respond_fields evaluate_fields decay_fields\<close>)
qed

text \<open>
  C9.  A fresh session satisfies \<open>waiting_for_answer\<close> implies \<open>current_question\<close>
  is set and not empty, and every operation on a session keeps it.
\<close>

theorem answerable_invariant:
  "answerable (init_session sid) \<and> (answerable s \<longrightarrow> answerable (fst (apply_op x (s, w))))"
  using apply_op_answerable [of "(s, w)" x]
  by (simp add: answerable_def init_session_def)


text \<open>Asking a question makes the session wait, with the question set.\<close>

theorem answerable_invariant_witness:
  "answerable four_asked
   \<and> waiting_for_answer (fst (apply_op (Ask echo_env 100 101) (four_asked, init_world)))
   \<and> answerable (fst (apply_op (Ask echo_env 100 101) (four_asked, init_world)))"
  using answerable_invariant [of "''u''" four_asked "Ask echo_env 100 101" init_world]
  by (simp add: answerable_def four_asked_def five_asked_def init_session_def
      generate_question_def should_ask_question_def echo_env_def strip_def strip_by_def
      is_space_def Let_def)

text \<open>
  C3, as stated: an answer that arrives while \<open>waiting_for_answer\<close> holds clears
  \<open>current_question\<close>.  It does not: \<open>add_audio_context\<close> never assigns it.
\<close>

theorem answer_keeps_current_question:
  "waiting_for_answer pending
   \<and> current_question pending = Some ''e''
   \<and> current_question
       (fst (add_audio_context (speech_env '' yes '') 1 2 3 ''x,y'' pending init_world)) = Some ''e''"
  by (simp add: audio_fields pending_def)

text \<open>
  C3, amended.  When a non-empty transcription is ingested while \<open>waiting_for_answer\<close>
  holds, one entry of the question, the answer and the time is appended to
  \<open>qa_pairs\<close> and \<open>waiting_for_answer\<close> is cleared in the same call;
  \<open>current_question\<close> keeps its value.
\<close>

theorem answer_recorded:
  assumes "payload audio_data = Inr b64" and "b64decode env b64 = Inr audio_bytes"
    and "1000 \<le> length audio_bytes" and "transcribe env audio_bytes = Inr text"
    and "strip text \<noteq> []" and "waiting_for_answer s"
  shows "qa_pairs (fst (add_audio_context env t_file t_speech t_answer audio_data s w)) =
           qa_pairs s @
             [\<lparr>question = current_question s, answer = strip text, timestamp = t_answer\<rparr>]
         \<and> \<not> waiting_for_answer (fst (add_audio_context env t_file t_speech t_answer audio_data s w))
         \<and> current_question (fst (add_audio_context env t_file t_speech t_answer audio_data s w))
             = current_question s"
  using assms by (simp add: audio_result ingest_qa ingest_waiting ingest_fields)


theorem answer_recorded_witness:
  "qa_pairs (fst (add_audio_context (speech_env '' yes '') 1 2 3 ''x,y'' pending init_world)) =
     [\<lparr>question = Some ''e'', answer = ''yes'', timestamp = 3\<rparr>]
   \<and> \<not> waiting_for_answer
         (fst (add_audio_context (speech_env '' yes '') 1 2 3 ''x,y'' pending init_world))
   \<and> current_question
         (fst (add_audio_context (speech_env '' yes '') 1 2 3 ''x,y'' pending init_world)) = Some ''e''"
  using answer_recorded [of "''x,y''" "''y''" "speech_env '' yes ''" "replicate 1000 (CHR ''a'')"
      "'' yes ''" pending 1 2 3 init_world]
  by (simp add: payload_xy strip_yes speech_env_def echo_env_def pending_def five_asked_def
      init_session_def)

text \<open>
  C10.  The entry appended for an answer holds the stripped text of the one
  transcription that triggered it, and the value \<open>current_question\<close> had at that
  moment.
\<close>

theorem answer_is_latest_utterance:
  assumes "payload audio_data = Inr b64" and "b64decode env b64 = Inr audio_bytes"
    and "1000 \<le> length audio_bytes" and "transcribe env audio_bytes = Inr text"
    and "strip text \<noteq> []" and "waiting_for_answer s"
  shows "length (qa_pairs (fst (add_audio_context env t_file t_speech t_answer audio_data s w)))
           = Suc (length (qa_pairs s))
         \<and> answer (last (qa_pairs (fst (add_audio_context env t_file t_speech t_answer audio_data s w))))
             = strip text
         \<and> question (last (qa_pairs (fst (add_audio_context env t_file t_speech t_answer audio_data s w))))
             = current_question s"
  using assms by (simp add: audio_result ingest_qa)

lemma transcript_pending:
  "transcript (ingest_transcription 2 3 '' yes '' pending) = ''before yes''"
  by (simp add: ingest_transcription_def cap_transcript_def record_answer_def
      extract_facts_def note_speech_def pending_def five_asked_def init_session_def strip_yes)

text \<open>The transcript buffer holds the earlier speech too; the answer does not.\<close>

theorem answer_is_latest_utterance_witness:
  "answer (last (qa_pairs
      (fst (add_audio_context (speech_env '' yes '') 1 2 3 ''x,y'' pending init_world)))) = ''yes''
   \<and> question (last (qa_pairs
      (fst (add_audio_context (speech_env '' yes '') 1 2 3 ''x,y'' pending init_world)))) = Some ''e''
   \<and> transcript
      (fst (add_audio_context (speech_env '' yes '') 1 2 3 ''x,y'' pending init_world))
        = ''before yes''"
proof -
  have h1: "payload ''x,y'' = Inr ''y''"
    by (rule payload_xy)
  have h2: "b64decode (speech_env '' yes '') ''y'' = Inr (replicate 1000 (CHR ''a''))"
    by (simp add: speech_env_def echo_env_def)
  have h3: "1000 \<le> length (replicate 1000 (CHR ''a''))"
    by simp
  have h4: "transcribe (speech_env '' yes '') (replicate 1000 (CHR ''a'')) = Inr '' yes ''"
    by (simp add: speech_env_def echo_env_def)
  have h5: "strip '' yes '' \<noteq> []"
    by (simp add: strip_yes)
  have h6: "waiting_for_answer pending"
    by (simp add: pending_def)
  have q: "current_question pending = Some ''e''"
    by (simp add: pending_def)
  have r: "fst (add_audio_context (speech_env '' yes '') 1 2 3 ''x,y'' pending init_world)
             = ingest_transcription 2 3 '' yes '' pending"
    by (rule audio_result [OF h1 h2 h3 h4 h5])
  show ?thesis
    using answer_is_latest_utterance [OF h1 h2 h3 h4 h5 h6, of 1 2 3 init_world]
    by (simp add: strip_yes q r transcript_pending)
qed

subsection \<open>The cooldown of the dialogue\<close>

lemma respond_greeting_kept:
  "interview_stage (snd (generate_conversational_response t s)) = Greeting \<Longrightarrow>
     last_response_time (snd (generate_conversational_response t s)) = last_response_time s"
  by (cases "t - last_response_time s < 15"; cases "interview_stage s";
      cases "student_name s = []"; cases "length (transcript s) > 50")
     (simp_all add: generate_conversational_response_def)

lemma respond_greeting_was:
  "interview_stage (snd (generate_conversational_response t s)) = Greeting \<Longrightarrow>
     interview_stage s = Greeting"
  by (cases "t - last_response_time s < 15"; cases "interview_stage s";
      cases "student_name s = []"; cases "length (transcript s) > 50")
     (simp_all add: generate_conversational_response_def)

lemma apply_op_untimed:
  assumes "interview_stage (fst st) = Greeting \<longrightarrow> last_response_time (fst st) = 0"
  shows "interview_stage (fst (apply_op x st)) = Greeting \<longrightarrow>
           last_response_time (fst (apply_op x st)) = 0"
proof (cases st)
  case (Pair s w)
  show ?thesis
  proof (cases x)
    case (Advance t)
    then show ?thesis
      using assms Pair respond_greeting_kept [of t s] respond_greeting_was [of t s] by simp
  qed (use assms Pair in \<open>simp_all add: frame_fields audio_fields ask_fields evaluate_fields
        decay_fields\<close>)
qed

lemma run_untimed:
  "(interview_stage (fst st) = Greeting \<longrightarrow> last_response_time (fst st) = 0) \<Longrightarrow>
   interview_stage (fst (run xs st)) = Greeting \<longrightarrow> last_response_time (fst (run xs st)) = 0"
proof (induction xs arbitrary: st)
  case Nil
  then show ?case by simp
next
  case (Cons x xs)
  from Cons.prems have "interview_stage (fst (apply_op x st)) = Greeting \<longrightarrow>
      last_response_time (fst (apply_op x st)) = 0"
    by (rule apply_op_untimed)
  then show ?case using Cons.IH [of "apply_op x st"] by simp
qed

lemma respond_greeting:
  "interview_stage s = Greeting \<Longrightarrow> 15 \<le> t - last_response_time s \<Longrightarrow>
     generate_conversational_response t s =
       (Some greeting_text, s\<lparr>interview_stage := AwaitingName, last_response_time := t\<rparr>)"
  by (simp add: generate_conversational_response_def)

lemma apply_op_response_time:
  "\<not> (\<exists>t. x = Advance t) \<Longrightarrow>
     last_response_time (fst (apply_op x st)) = last_response_time (fst st)"
  by (cases x; cases st)
     (simp_all add: frame_fields audio_fields ask_fields evaluate_fields decay_fields)

lemma advance_times_spaced:
  "successively (\<lambda>a b. 15 \<le> b - a) (advance_times xs st)
   \<and> (advance_times xs st \<noteq> [] \<longrightarrow>
        15 \<le> hd (advance_times xs st) - last_response_time (fst st))"
proof (induction xs arbitrary: st)
  case Nil
  show ?case by simp
next
  case (Cons x xs)
  show ?case
  proof (cases "\<exists>t. x = Advance t")
    case True
    then obtain t where x: "x = Advance t" by blast
    obtain s w where st: "st = (s, w)" by (cases st)
    let ?st' = "apply_op (Advance t) st"
    note IH = Cons.IH [of ?st']
    show ?thesis
    proof (cases "fst (generate_conversational_response t s) = None")
      case True
      then have "fst ?st' = s" using st by (simp add: respond_silent)
      then show ?thesis using IH True x st by simp
    next
      case False
      then have stamp: "last_response_time (fst ?st') = t" "15 \<le> t - last_response_time s"
        using st respond_stamped [of t s] by simp_all
      have "advance_times (x # xs) st = t # advance_times xs ?st'"
        using False x st by simp
      then show ?thesis using IH stamp st by (auto simp add: successively_Cons)
    qed
  next
    case False
    then have eq: "advance_times (x # xs) st = advance_times xs (apply_op x st)"
      by (cases x) simp_all
    show ?thesis
      using Cons.IH [of "apply_op x st"] apply_op_response_time [OF False, of st] eq by simp
  qed
qed

text \<open>
  C5.  The clock is \<open>time.time()\<close>, the seconds since 1970, so every reading is at
  least 15.  \<open>generate_conversational_response\<close> returns nothing and leaves the
  session as it is whenever fewer than 15 seconds have passed since
  \<open>last_response_time\<close>; a session still in the greeting stage has
  \<open>last_response_time = 0\<close>, so its first call, at a reading of at least 15, returns
  the greeting however soon it comes; and in every run the clock readings of two
  consecutive calls that returned a message are at least 15 apart.
\<close>

theorem advance_rate_limited:
  "(t - last_response_time s < 15 \<longrightarrow> generate_conversational_response t s = (None, s))
   \<and> (interview_stage (fst (run xs (init_session sid, w))) = Greeting \<and> 15 \<le> t' \<longrightarrow>
        generate_conversational_response t' (fst (run xs (init_session sid, w))) =
          (Some greeting_text,
           (fst (run xs (init_session sid, w)))
             \<lparr>interview_stage := AwaitingName, last_response_time := t'\<rparr>))
   \<and> successively (\<lambda>a b. 15 \<le> b - a) (advance_times ys st)"
proof -
  have "interview_stage (fst (run xs (init_session sid, w))) = Greeting \<longrightarrow>
          last_response_time (fst (run xs (init_session sid, w))) = 0"
    by (rule run_untimed) (simp add: init_session_def)
  then show ?thesis
    using advance_times_spaced [of ys st]
    by (auto simp add: respond_limited respond_greeting)
qed

lemma three_advances:
  "advance_times [Advance 100, Advance 110, Advance 120] (init_session ''u'', init_world)
     = [100, 120]"
  by (simp add: generate_conversational_response_def init_session_def)

text \<open>
  A call 10 seconds after the greeting is silent, the greeting at reading 100 is given,
  and of three calls at 100, 110 and 120 the first and the last speak.
\<close>

theorem advance_rate_limited_witness:
  "generate_conversational_response 110 greeted = (None, greeted)
   \<and> generate_conversational_response 100 (init_session ''u'') = (Some greeting_text, greeted)
   \<and> advance_times [Advance 100, Advance 110, Advance 120] (init_session ''u'', init_world)
        = [100, 120]
   \<and> successively (\<lambda>a b. 15 \<le> b - a) [100, 120 :: real]"
proof -
  note T = advance_rate_limited [of 110 greeted "[]" "''u''" init_world 100
      "[Advance 100, Advance 110, Advance 120]" "(init_session ''u'', init_world)"]
  have a: "110 - last_response_time greeted < 15"
    by (simp add: greeted_def)
  have b: "interview_stage (fst (run [] (init_session ''u'', init_world))) = Greeting
           \<and> (15 :: real) \<le> 100"
    by (simp add: init_session_def)
  from T a have c1: "generate_conversational_response 110 greeted = (None, greeted)"
    by blast
  from T b have c2: "generate_conversational_response 100
        (fst (run [] (init_session ''u'', init_world))) =
      (Some greeting_text,
       (fst (run [] (init_session ''u'', init_world)))
         \<lparr>interview_stage := AwaitingName, last_response_time := 100\<rparr>)"
    by blast
  from T have c3: "successively (\<lambda>a b. 15 \<le> b - a)
      (advance_times [Advance 100, Advance 110, Advance 120] (init_session ''u'', init_world))"
    by blast
  show ?thesis
  proof (intro conjI)
    show "generate_conversational_response 110 greeted = (None, greeted)"
      by (rule c1)
    show "generate_conversational_response 100 (init_session ''u'') = (Some greeting_text, greeted)"
      using c2 by (simp add: greeted_def)
    show "advance_times [Advance 100, Advance 110, Advance 120] (init_session ''u'', init_world)
            = [100, 120]"
      by (rule three_advances)
    show "successively (\<lambda>a b. 15 \<le> b - a) [100, 120 :: real]"
      using c3 by (simp only: three_advances)
  qed
qed


subsection \<open>The cap of the screen buffer\<close>

lemma length_last_chars: "length (last_chars n xs) = min n (length xs)"
  by (simp add: last_chars_def)

lemma append_screen_context:
  "context_buf (append_screen text s) =
     (if 5000 < length (context_buf s @ [CHR 0x0A] @ ''[SCREEN]: '' @ strip text)
      then last_chars 3000 (context_buf s @ [CHR 0x0A] @ ''[SCREEN]: '' @ strip text)
      else context_buf s @ [CHR 0x0A] @ ''[SCREEN]: '' @ strip text)"
  by (simp add: append_screen_def Let_def)

lemma append_screen_bounded: "length (context_buf (append_screen text s)) \<le> 5000"
  unfolding append_screen_context by (simp add: length_last_chars del: length_append)

lemma frame_bounded:
  "length (context_buf s) \<le> 5000 \<Longrightarrow>
     length (context_buf (fst (add_frame_context env d s w))) \<le> 5000"
  using frame_cases [of env d s w] by (auto simp add: append_screen_bounded)

lemma frame_accepted:
  "extract_text env d = Inr text \<Longrightarrow> strip text \<noteq> [] \<Longrightarrow> \<not> is_duplicate s text \<Longrightarrow>
     add_frame_context env d s w = (append_screen text s, w)"
  by (simp add: add_frame_context_def)

lemma apply_op_bounded:
  "length (context_buf (fst st)) \<le> 5000 \<Longrightarrow>
     length (context_buf (fst (apply_op x st))) \<le> 5000"
  by (cases x; cases st)
     (simp_all add: frame_bounded audio_fields respond_fields ask_fields evaluate_fields
        decay_fields)

lemma run_bounded:
  "length (context_buf (fst st)) \<le> 5000 \<Longrightarrow>
     length (context_buf (fst (run xs st))) \<le> 5000"
  by (induction xs arbitrary: st) (simp_all add: apply_op_bounded)

text \<open>
  C7.  In every run from a fresh session \<open>context\<close> has at most 5000 characters, and
  \<open>add_frame_context\<close> keeps that bound; when the text it appends makes the buffer
  longer than 5000, exactly the last 3000 characters of the appended buffer remain.
\<close>

theorem context_capped:
  "length (context_buf (fst (run xs (init_session sid, w0)))) \<le> 5000
   \<and> (length (context_buf s) \<le> 5000 \<longrightarrow>
        length (context_buf (fst (add_frame_context env d s w))) \<le> 5000)
   \<and> (extract_text env d = Inr text \<and> strip text \<noteq> [] \<and> \<not> is_duplicate s text
        \<and> 5000 < length (context_buf s @ [CHR 0x0A] @ ''[SCREEN]: '' @ strip text) \<longrightarrow>
        context_buf (fst (add_frame_context env d s w)) =
          last_chars 3000 (context_buf s @ [CHR 0x0A] @ ''[SCREEN]: '' @ strip text)
        \<and> length (context_buf (fst (add_frame_context env d s w))) = 3000)"
proof (intro conjI impI)
  show "length (context_buf (fst (run xs (init_session sid, w0)))) \<le> 5000"
    by (rule run_bounded) (simp add: init_session_def)
next
  assume "length (context_buf s) \<le> 5000"
  then show "length (context_buf (fst (add_frame_context env d s w))) \<le> 5000"
    by (rule frame_bounded)
next
  assume a: "extract_text env d = Inr text \<and> strip text \<noteq> [] \<and> \<not> is_duplicate s text
      \<and> 5000 < length (context_buf s @ [CHR 0x0A] @ ''[SCREEN]: '' @ strip text)"
  then have r: "add_frame_context env d s w = (append_screen text s, w)"
    by (simp add: frame_accepted)
  show "context_buf (fst (add_frame_context env d s w)) =
          last_chars 3000 (context_buf s @ [CHR 0x0A] @ ''[SCREEN]: '' @ strip text)"
    using a unfolding r by (simp add: append_screen_context)
  then show "length (context_buf (fst (add_frame_context env d s w))) = 3000"
    using a by (simp add: length_last_chars del: length_append)
qed

lemma extract_hello: "extract_text echo_env ''x,hello'' = Inr ''hello''"
  by (simp add: extract_text_def payload_def split_on_def echo_env_def)

lemma strip_hello: "strip ''hello'' = ''hello''"
  by (simp add: strip_def strip_by_def is_space_def)

text \<open>
  Sixteen characters appended to a buffer of 4995 leave the last 3000 of the
  5011.
\<close>

theorem context_capped_witness:
  "length (context_buf nearly_full) = 4995
   \<and> length (context_buf (fst (add_frame_context echo_env ''x,hello'' nearly_full init_world)))
       = 3000
   \<and> context_buf (fst (add_frame_context echo_env ''x,hello'' nearly_full init_world)) =
       replicate 2984 (CHR ''x'') @ [CHR 0x0A] @ ''[SCREEN]: hello''"
proof -
  note T = context_capped [of "[]" "''u''" init_world nearly_full echo_env "''x,hello''"
      init_world "''hello''"]
  have len: "length (context_buf nearly_full) = 4995"
    by (simp add: nearly_full_def)
  have dup: "\<not> is_duplicate nearly_full ''hello''"
    by (simp add: is_duplicate_def nearly_full_def init_session_def)
  have over: "5000 < length (context_buf nearly_full @ [CHR 0x0A] @ ''[SCREEN]: '' @ strip ''hello'')"
    by (simp add: len strip_hello)
  have ne: "strip ''hello'' \<noteq> []"
    by (simp add: strip_hello)
  from T extract_hello ne dup over
  have c: "context_buf (fst (add_frame_context echo_env ''x,hello'' nearly_full init_world)) =
      last_chars 3000 (context_buf nearly_full @ [CHR 0x0A] @ ''[SCREEN]: '' @ strip ''hello'')"
    and l: "length (context_buf (fst (add_frame_context echo_env ''x,hello'' nearly_full init_world)))
      = 3000"
    by blast+
  have "last_chars 3000 (context_buf nearly_full @ [CHR 0x0A] @ ''[SCREEN]: '' @ strip ''hello'')
          = replicate 2984 (CHR ''x'') @ [CHR 0x0A] @ ''[SCREEN]: hello''"
    by (simp add: last_chars_def strip_hello nearly_full_def)
  with c l len show ?thesis by simp
qed

subsection \<open>Duplicate screen text\<close>











subsection \<open>The temporary audio file\<close>

lemma audio_failure_leaves_file:
  assumes "payload audio_data = Inr b64" and "b64decode env b64 = Inr audio_bytes"
    and "1000 \<le> length audio_bytes" and "transcribe env audio_bytes = Inl e"
  shows "files (snd (add_audio_context env t_file t_speech t_answer audio_data s w))
           (temp_wav_path env s t_file) = Some audio_bytes"
  using assms by (simp add: add_audio_context_def Let_def emit_def)

lemma audio_success_removes_file:
  assumes "payload audio_data = Inr b64" and "b64decode env b64 = Inr audio_bytes"
    and "1000 \<le> length audio_bytes" and "transcribe env audio_bytes = Inr text"
  shows "files (snd (add_audio_context env t_file t_speech t_answer audio_data s w))
           (temp_wav_path env s t_file) = None"
  using assms by (simp add: add_audio_context_def Let_def)

lemma temp_wav_u7: "temp_wav_path failing_stt_env (init_session ''u'') 7 = ''/tmp/audio_u_7.wav''"
  by (simp add: temp_wav_path_def failing_stt_env_def echo_env_def init_session_def path_join_def
      str_int_def py_int_def digits.simps)

text \<open>
  C1.  The claim is that the temporary file is released on every exit path of
  \<open>add_audio_context\<close>.  \<open>os.remove\<close> stands after the transcription call, so the
  file is removed when the call returns and stays when it raises: after a call with
  1000 bytes of audio and a transcription service that raises, the file is there.
\<close>

theorem temp_file_left_when_transcription_raises:
  "temp_wav_path failing_stt_env (init_session ''u'') 7 = ''/tmp/audio_u_7.wav''
   \<and> files init_world ''/tmp/audio_u_7.wav'' = None
   \<and> files (snd (add_audio_context failing_stt_env 7 8 9 ''x,y'' (init_session ''u'') init_world))
         ''/tmp/audio_u_7.wav'' = Some (replicate 1000 (CHR ''a''))"
proof -
  have "files (snd (add_audio_context failing_stt_env 7 8 9 ''x,y'' (init_session ''u'') init_world))
          (temp_wav_path failing_stt_env (init_session ''u'') 7) = Some (replicate 1000 (CHR ''a''))"
    by (rule audio_failure_leaves_file [OF payload_xy, where e = TranscriptionError])
       (simp_all add: failing_stt_env_def echo_env_def)
  then show ?thesis
    by (simp add: temp_wav_u7 init_world_def)
qed


subsection \<open>The evaluation trigger\<close>

lemma requests_emit:
  "evaluation_requests (emit e w) =
     evaluation_requests w + (if is_evaluation_request e then 1 else 0)"
  by (simp add: evaluation_requests_def emit_def)

lemma requests_files: "evaluation_requests (w\<lparr>files := f\<rparr>) = evaluation_requests w"
  by (simp add: evaluation_requests_def)

lemma not_requests:
  "\<not> is_evaluation_request (Printed m e)"
  "\<not> is_evaluation_request (Sent msg)"
  "\<not> is_evaluation_request (Slept d)"
  "\<not> is_evaluation_request (Requested (QuestionPrompt a b c q))"
  "is_evaluation_request (Requested (EvaluationPrompt c t n))"
  by (simp_all add: is_evaluation_request_def)

lemma frame_requests:
  "evaluation_requests (snd (add_frame_context env d s w)) = evaluation_requests w"
  using frame_cases [of env d s w] by (auto simp add: requests_emit not_requests)

lemma audio_requests:
  "evaluation_requests (snd (add_audio_context env t0 t1 t2 d s w)) = evaluation_requests w"
  by (simp add: add_audio_context_def Let_def requests_emit requests_files not_requests
      split: sum.splits)

lemma ask_requests:
  "evaluation_requests (snd (snd (generate_question env t1 t2 s w))) = evaluation_requests w"
  by (simp add: generate_question_def Let_def requests_emit not_requests
      split: prod.splits bool.splits sum.splits)

lemma evaluate_requests:
  "evaluation_requests (snd (update_evaluation env s w)) = Suc (evaluation_requests w)"
  by (simp add: update_evaluation_def Let_def requests_emit not_requests split: sum.splits)

lemma deliver_requests:
  "evaluations (outcome_state (deliver env g msg s w)) = evaluation_requests w"
  by (simp add: deliver_def outcome_state_def evaluations_def requests_emit not_requests
      split: option.splits)

lemma greet_requests:
  "evaluations (outcome_state (greet env r st)) = evaluations st"
  by (cases st)
     (simp add: greet_def outcome_state_def evaluations_def requests_emit not_requests Let_def
      split: option.splits prod.splits)

lemma handle_event_requests:
  "evaluations (outcome_state (handle_event env r data st)) = evaluations st"
proof (cases st)
  case (fields g s w)
  show ?thesis
  proof (cases "ev_type data = ''frame''")
    case True
    then show ?thesis
      using fields frame_requests [of env "ev_content data" s w]
      by (simp add: handle_event_def outcome_state_def evaluations_def split: prod.splits)
  next
    case False
    note not_frame = this
    show ?thesis
    proof (cases "ev_type data = ''audio''")
      case False
      then show ?thesis using not_frame fields
        by (simp add: handle_event_def outcome_state_def)
    next
      case True
      obtain s1 w1 where a: "add_audio_context env (r_file r) (r_speech r) (r_answer r)
          (ev_content data) s w = (s1, w1)"
        by (cases "add_audio_context env (r_file r) (r_speech r) (r_answer r)
          (ev_content data) s w")
      have w1: "evaluation_requests w1 = evaluation_requests w"
        using audio_requests [of env "r_file r" "r_speech r" "r_answer r" "ev_content data" s w] a
        by simp
      obtain q s2 w2 where b: "generate_question env (r_check r) (r_stamp r) s1 w1 = (q, s2, w2)"
        by (cases "generate_question env (r_check r) (r_stamp r) s1 w1")
      have w2: "evaluation_requests w2 = evaluation_requests w1"
        using ask_requests [of env "r_check r" "r_stamp r" s1 w1] b by simp
      show ?thesis
        using True not_frame fields a b w1 w2
        by (simp add: handle_event_def Let_def deliver_requests requests_emit not_requests
            evaluations_def [of st] evaluations_def [of "(g, s1, w1)"] outcome_state_def [of "Completed x" for x]
            split: prod.splits)
           (simp add: evaluations_def)
    qed
  qed
qed


lemma finish_tick_requests: "evaluations (finish_tick r st) = evaluations st"
  by (cases st) (simp add: finish_tick_def evaluations_def requests_emit not_requests)

lemma tick_failed_requests: "evaluations (tick_failed e st) = evaluations st"
  by (cases st) (simp add: tick_failed_def evaluations_def requests_emit not_requests)

lemma evaluation_trigger_requests:
  "evaluations (evaluation_trigger env r st) =
     evaluations st + (if evaluation_due r (fst (snd st)) then 1 else 0)"
  using evaluate_requests [of env "fst (snd st)" "snd (snd st)"]
  by (cases st) (simp add: evaluation_trigger_def evaluations_def split: prod.splits)

lemma respond_queue:
  "processing_queue (snd (generate_conversational_response t s)) = processing_queue s"
  by (simp add: generate_conversational_response_def)

lemma greet_queue:
  "processing_queue (fst (snd (outcome_state (greet env r st)))) = processing_queue (fst (snd st))"
  using respond_queue [of "r_greet r" "fst (snd st)"]
  by (cases st)
     (auto simp add: greet_def outcome_state_def Let_def split: option.splits prod.splits)

lemma tick_idle:
  assumes "processing_queue (fst (snd st)) = []"
  shows "evaluations (tick env r st) = evaluations st"
proof (cases "greet env r st")
  case (Raised e st1)
  then show ?thesis
    using greet_requests [of env r st]
    by (simp add: tick_def tick_failed_requests outcome_state_def)
next
  case (Completed st1)
  obtain g s w where st1: "st1 = (g, s, w)" by (cases st1)
  have "processing_queue s = []"
    using greet_queue [of env r st] assms Completed st1 by (simp add: outcome_state_def)
  then have "tick env r st = finish_tick r st1"
    using Completed st1 by (simp add: tick_def process_queue_def)
  then show ?thesis
    using greet_requests [of env r st] Completed
    by (simp add: finish_tick_requests outcome_state_def)
qed

lemma due_on_the_minute: "evaluation_due on_the_minute five_asked"
  by (simp add: evaluation_due_def on_the_minute_def py_fmod_def five_asked_def init_session_def)

text \<open>
  C2, as stated: the evaluation trigger is applied on every tick, whether or not an
  event was dequeued.  The test stands inside the block of a non-empty queue: a tick
  with an empty queue, questions asked and the clock on a full minute only sleeps.
\<close>

theorem no_evaluation_without_event:
  "processing_queue five_asked = []
   \<and> evaluation_due on_the_minute five_asked
   \<and> tick echo_env on_the_minute (True, five_asked, init_world)
       = (True, five_asked, emit (Slept 0.1) init_world)
   \<and> evaluations (tick echo_env on_the_minute (True, five_asked, init_world)) = 0"
proof -
  have t: "tick echo_env on_the_minute (True, five_asked, init_world)
             = (True, five_asked, emit (Slept 0.1) init_world)"
    by (simp add: tick_def greet_def process_queue_def finish_tick_def decay_speech_def
        five_asked_def init_session_def)
  show ?thesis
    unfolding t using due_on_the_minute
    by (simp add: evaluations_def requests_emit not_requests)
       (simp add: five_asked_def init_session_def evaluation_requests_def init_world_def)
qed

text \<open>
  C2, amended.  A tick that finds the queue empty requests no evaluation.  A tick
  whose greeting step completes, that dequeues an event and handles it without an
  exception, applies the trigger to the state the handling left, before the decay of
  the speech flag, and requests one evaluation exactly when \<open>questions_asked\<close> is not
  empty and the clock reading modulo 60 is below 1.
\<close>

theorem evaluation_follows_event:
  "(processing_queue (fst (snd st)) = [] \<longrightarrow> evaluations (tick env r st) = evaluations st)
   \<and> (greet env r st = Completed (g, s, w) \<and> processing_queue s = data # rest
        \<and> handle_event env r data (g, s\<lparr>processing_queue := rest\<rparr>, w) = Completed (g', s', w')
       \<longrightarrow>
        tick env r st = finish_tick r (evaluation_trigger env r (g', s', w'))
        \<and> evaluations (tick env r st) =
            evaluations st + (if evaluation_due r s' then 1 else 0))"
proof (intro conjI impI)
  assume "processing_queue (fst (snd st)) = []"
  then show "evaluations (tick env r st) = evaluations st"
    by (rule tick_idle)
next
  assume a: "greet env r st = Completed (g, s, w) \<and> processing_queue s = data # rest
    \<and> handle_event env r data (g, s\<lparr>processing_queue := rest\<rparr>, w) = Completed (g', s', w')"
  have g: "evaluations (g, s, w) = evaluations st"
    using greet_requests [of env r st] a by (simp add: outcome_state_def)
  show t: "tick env r st = finish_tick r (evaluation_trigger env r (g', s', w'))"
    using a by (simp add: tick_def process_queue_def)
  have "evaluations (g', s', w') = evaluations (g, s\<lparr>processing_queue := rest\<rparr>, w)"
    using handle_event_requests [of env r data "(g, s\<lparr>processing_queue := rest\<rparr>, w)"] a
    by (simp add: outcome_state_def)
  also have "\<dots> = evaluations st"
    using g by (simp add: evaluations_def)
  finally show "evaluations (tick env r st) =
      evaluations st + (if evaluation_due r s' then 1 else 0)"
    unfolding t by (simp add: finish_tick_requests evaluation_trigger_requests)
qed

lemma greet_sent: "greet env r (True, s, w) = Completed (True, s, w)"
  by (simp add: greet_def)

text \<open>
  With a frame in the queue and the clock on a full minute one evaluation is
  requested; with an empty queue, none.
\<close>

theorem evaluation_follows_event_witness:
  "processing_queue queued = [hello_frame]
   \<and> evaluations (True, queued, init_world) = 0
   \<and> evaluations (tick echo_env on_the_minute (True, queued, init_world)) = 1
   \<and> processing_queue pending = []
   \<and> evaluations (tick echo_env on_the_minute (True, pending, init_world)) = 0"
proof -
  let ?s = "queued\<lparr>processing_queue := []\<rparr>"
  have q: "processing_queue queued = [hello_frame]"
    by (simp add: queued_def)
  have ne: "strip ''hello'' \<noteq> []"
    by (simp add: strip_hello)
  have dup: "\<not> is_duplicate ?s ''hello''"
    by (simp add: is_duplicate_def queued_def five_asked_def init_session_def)
  have f: "add_frame_context echo_env ''x,hello'' ?s init_world
             = (append_screen ''hello'' ?s, init_world)"
    using extract_hello ne dup by (rule frame_accepted)
  have h: "handle_event echo_env on_the_minute hello_frame (True, ?s, init_world)
             = Completed (True, append_screen ''hello'' ?s, init_world)"
    by (simp add: handle_event_def hello_frame_def f)
  have due: "evaluation_due on_the_minute (append_screen ''hello'' ?s)"
    by (simp add: evaluation_due_def on_the_minute_def py_fmod_def append_screen_def Let_def
        queued_def five_asked_def init_session_def)
  have z: "evaluations (True, s, init_world) = 0" for s
    by (simp add: evaluations_def evaluation_requests_def init_world_def)
  have one: "evaluations (tick echo_env on_the_minute (True, queued, init_world)) =
          evaluations (True, queued, init_world)
            + (if evaluation_due on_the_minute (append_screen ''hello'' ?s) then 1 else 0)"
    using evaluation_follows_event [where env = echo_env and r = on_the_minute
        and st = "(True, queued, init_world)" and g = True and s = queued and w = init_world
        and data = hello_frame and rest = "[]" and g' = True
        and s' = "append_screen ''hello'' ?s" and w' = init_world] greet_sent q h
    by blast
  have e: "processing_queue pending = []"
    by (simp add: pending_def five_asked_def init_session_def)
  have none: "evaluations (tick echo_env on_the_minute (True, pending, init_world)) =
          evaluations (True, pending, init_world)"
    using evaluation_follows_event [where env = echo_env and r = on_the_minute
        and st = "(True, pending, init_world)"] e
    by simp
  show ?thesis
    using q e one none due z by simp
qed

end
